theory Spec2Isabelle
  imports Main "HOL-Library.Word"
begin

section \<open>Faults (utils/assert)\<close>

text \<open>
  A thrown JavaScript error is a value: its constructor and its message.
  \<^verbatim>\<open>assert(condition, errorMessage, errorConstructor)\<close> throws
  \<^verbatim>\<open>new errorConstructor(errorMessage)\<close> when the condition is falsy and does nothing
  otherwise; \<^verbatim>\<open>assertType\<close> is \<^verbatim>\<open>assert\<close> with \<^verbatim>\<open>TypeError\<close>.
\<close>

datatype js_error = TypeError string | Error string

definition assert_js :: "bool \<Rightarrow> string \<Rightarrow> (string \<Rightarrow> js_error) \<Rightarrow> js_error + unit" where
  "assert_js condition errorMessage errorConstructor =
     (if \<not> condition then Inl (errorConstructor errorMessage) else Inr ())"

definition assertType :: "bool \<Rightarrow> string \<Rightarrow> js_error + unit" where
  "assertType condition errorMessage = assert_js condition errorMessage TypeError"

section \<open>The array-backed Map shim (shims/es6-collections.js)\<close>

text \<open>
  The shim's only field is \<^verbatim>\<open>_entries\<close>, an array of \<^verbatim>\<open>[key, value]\<close> pairs; the
  model is that array, as a list of pairs. Keys are compared with \<^verbatim>\<open>===\<close>, which on
  objects is identity: HOL equality on the key type.
\<close>

type_synonym ('k, 'v) shim = "('k \<times> 'v) list"

definition shim_new :: "('k, 'v) shim" where
  "shim_new = []"

definition shim_size :: "('k, 'v) shim \<Rightarrow> nat" where
  "shim_size es = length es"

text \<open>
  \<^verbatim>\<open>_indexOfKey\<close> begins with \<^verbatim>\<open>const [length] = this._entries;\<close>. The pattern on the
  left is an array pattern, so \<^verbatim>\<open>length\<close> is bound to the first element of the array:
  \<^verbatim>\<open>undefined\<close> when the array is empty, the first \<^verbatim>\<open>[key, value]\<close> pair otherwise.
\<close>

definition first_element :: "('k, 'v) shim \<Rightarrow> ('k \<times> 'v) option" where
  "first_element es = (case es of [] \<Rightarrow> None | e # _ \<Rightarrow> Some e)"

text \<open>
  The loop test \<^verbatim>\<open>i < length\<close> compares a number with that value. JavaScript converts
  the right operand to a number: \<^verbatim>\<open>undefined\<close> becomes \<^verbatim>\<open>NaN\<close>; a two-element array
  becomes the string of its elements joined by a comma, and a string that holds a comma
  is no numeric literal, so it becomes \<^verbatim>\<open>NaN\<close> as well (keys and values are taken to
  convert to strings without a fault, as DOM elements and ResizeObservation objects
  do). A comparison with \<^verbatim>\<open>NaN\<close> is false.
\<close>

datatype js_number = NaN | Num nat

definition ToNumber :: "('k \<times> 'v) option \<Rightarrow> js_number" where
  "ToNumber x = (case x of None \<Rightarrow> NaN | Some e \<Rightarrow> NaN)"

definition js_less :: "nat \<Rightarrow> js_number \<Rightarrow> bool" where
  "js_less i n = (case n of NaN \<Rightarrow> False | Num m \<Rightarrow> i < m)"

text \<open>
  The loop \<^verbatim>\<open>for (let i = 0; i < length; i += 1)\<close>. Reading \<^verbatim>\<open>this._entries[i][0]\<close>
  past the end of the array is a property access on \<^verbatim>\<open>undefined\<close>, a TypeError.
\<close>

function indexOfKey_loop :: "'k \<Rightarrow> ('k, 'v) shim \<Rightarrow> js_number \<Rightarrow> nat \<Rightarrow> js_error + int" where
  "indexOfKey_loop key es len i =
     (if js_less i len then
        (if i < length es then
           (if fst (es ! i) = key then Inr (int i)
            else indexOfKey_loop key es len (i + 1))
         else Inl (TypeError ''Cannot read properties of undefined''))
      else Inr (- 1))"
  by pat_completeness auto
termination
  by (relation "measure (\<lambda>(key, es, len, i). length es - i)") auto

declare indexOfKey_loop.simps [simp del]

definition indexOfKey :: "'k \<Rightarrow> ('k, 'v) shim \<Rightarrow> js_error + int" where
  "indexOfKey key es = indexOfKey_loop key es (ToNumber (first_element es)) 0"

definition shim_get :: "'k \<Rightarrow> ('k, 'v) shim \<Rightarrow> js_error + 'v option" where
  "shim_get key es =
     (case indexOfKey key es of
        Inl e \<Rightarrow> Inl e
      | Inr index \<Rightarrow>
          if index \<noteq> - 1 then Inr (Some (snd (es ! nat index))) else Inr None)"

definition shim_set :: "'k \<Rightarrow> 'v \<Rightarrow> ('k, 'v) shim \<Rightarrow> js_error + ('k, 'v) shim" where
  "shim_set key val es =
     (case indexOfKey key es of
        Inl e \<Rightarrow> Inl e
      | Inr index \<Rightarrow>
          if index = - 1 then Inr (es @ [(key, val)])
          else Inr (es[nat index := (fst (es ! nat index), val)]))"

definition shim_delete :: "'k \<Rightarrow> ('k, 'v) shim \<Rightarrow> js_error + (bool \<times> ('k, 'v) shim)" where
  "shim_delete key es =
     (case indexOfKey key es of
        Inl e \<Rightarrow> Inl e
      | Inr index \<Rightarrow>
          if index = - 1 then Inr (False, es)
          else Inr (True, take (nat index) es @ drop (nat index + 1) es))"

definition shim_has :: "'k \<Rightarrow> ('k, 'v) shim \<Rightarrow> js_error + bool" where
  "shim_has key es =
     (case indexOfKey key es of Inl e \<Rightarrow> Inl e | Inr index \<Rightarrow> Inr (index \<noteq> - 1))"

definition shim_clear :: "('k, 'v) shim \<Rightarrow> ('k, 'v) shim" where
  "shim_clear es = []"

text \<open>
  \<^verbatim>\<open>forEach(callback)\<close> calls \<^verbatim>\<open>callback(value, key)\<close> on the entries in array order;
  the callback's effect is a state transformer.
\<close>

definition shim_forEach :: "('v \<Rightarrow> 'k \<Rightarrow> 's \<Rightarrow> 's) \<Rightarrow> ('k, 'v) shim \<Rightarrow> 's \<Rightarrow> 's" where
  "shim_forEach callback es st = foldl (\<lambda>acc entry. callback (snd entry) (fst entry) acc) st es"

section \<open>The host\<close>

text \<open>
  Two facts about the host decide which code runs. \<^verbatim>\<open>hasElementInterface\<close> is the
  module constant \<^verbatim>\<open>typeof Element !== 'undefined' && Element instanceof Object\<close>.
  \<^verbatim>\<open>hasNativeMap\<close> is the test \<^verbatim>\<open>typeof Map !== 'undefined'\<close> of es6-collections.js:
  where it holds, the exported \<^verbatim>\<open>Map\<close> is the host's own, otherwise it is the shim.
\<close>

record host =
  hasElementInterface :: bool
  hasNativeMap :: bool

text \<open>
  A value passed as the target. \<^verbatim>\<open>Element k\<close> is the node with identity \<^verbatim>\<open>k\<close>, for
  which \<^verbatim>\<open>target instanceof getWindowOf(target).Element\<close> holds; \<^verbatim>\<open>NonElement k\<close> is any
  other value; \<^verbatim>\<open>Undefined\<close> is the value of a parameter that was not passed.
\<close>

datatype 'k js_value = Undefined | Element 'k | NonElement 'k

definition instanceof_Element :: "'k js_value \<Rightarrow> bool" where
  "instanceof_Element v = (case v of Element k \<Rightarrow> True | NonElement k \<Rightarrow> False | Undefined \<Rightarrow> False)"

text \<open>
  Modelled from the spec: the externally supplied associative store, which is the
  host's \<^verbatim>\<open>Map\<close> and is not part of the repository. The spec requires of it
  get/set/delete/has/clear/forEach keyed by object identity with insertion-order
  iteration: the entries are kept in insertion order, one entry per key.
\<close>

definition native_has :: "'k \<Rightarrow> ('k \<times> 'v) list \<Rightarrow> bool" where
  "native_has key es = (key \<in> set (map fst es))"

definition native_set :: "'k \<Rightarrow> 'v \<Rightarrow> ('k \<times> 'v) list \<Rightarrow> ('k \<times> 'v) list" where
  "native_set key val es =
     (if native_has key es then map (\<lambda>e. if fst e = key then (key, val) else e) es
      else es @ [(key, val)])"

definition native_delete :: "'k \<Rightarrow> ('k \<times> 'v) list \<Rightarrow> bool \<times> ('k \<times> 'v) list" where
  "native_delete key es = (native_has key es, filter (\<lambda>e. fst e \<noteq> key) es)"

definition native_forEach :: "('v \<Rightarrow> 'k \<Rightarrow> 's \<Rightarrow> 's) \<Rightarrow> ('k \<times> 'v) list \<Rightarrow> 's \<Rightarrow> 's" where
  "native_forEach callback es st = foldl (\<lambda>acc entry. callback (snd entry) (fst entry) acc) st es"

text \<open>The exported \<^verbatim>\<open>Map\<close>: the host's where there is one, the shim otherwise.\<close>

definition Map_has :: "host \<Rightarrow> 'k \<Rightarrow> ('k \<times> 'v) list \<Rightarrow> js_error + bool" where
  "Map_has h key es = (if hasNativeMap h then Inr (native_has key es) else shim_has key es)"

definition Map_set :: "host \<Rightarrow> 'k \<Rightarrow> 'v \<Rightarrow> ('k \<times> 'v) list \<Rightarrow> js_error + ('k \<times> 'v) list" where
  "Map_set h key val es =
     (if hasNativeMap h then Inr (native_set key val es) else shim_set key val es)"

definition Map_delete :: "host \<Rightarrow> 'k \<Rightarrow> ('k \<times> 'v) list \<Rightarrow> js_error + (bool \<times> ('k \<times> 'v) list)" where
  "Map_delete h key es =
     (if hasNativeMap h then Inr (native_delete key es) else shim_delete key es)"

definition Map_clear :: "host \<Rightarrow> ('k \<times> 'v) list \<Rightarrow> ('k \<times> 'v) list" where
  "Map_clear h es = (if hasNativeMap h then [] else shim_clear es)"

definition Map_size :: "host \<Rightarrow> ('k \<times> 'v) list \<Rightarrow> nat" where
  "Map_size h es = (if hasNativeMap h then length es else shim_size es)"

definition Map_forEach :: "host \<Rightarrow> ('v \<Rightarrow> 'k \<Rightarrow> 's \<Rightarrow> 's) \<Rightarrow> ('k \<times> 'v) list \<Rightarrow> 's \<Rightarrow> 's" where
  "Map_forEach h callback es st =
     (if hasNativeMap h then native_forEach callback es st else shim_forEach callback es st)"

section \<open>ResizeObservation and ResizeObserverEntry\<close>

text \<open>
  Modelled from the spec: ResizeObservation.js is not among the sources. An
  Observation holds its target and \<^verbatim>\<open>broadcastedBox\<close>, the last box reported, initially
  a sentinel distinct from every real box (\<^verbatim>\<open>None\<close>). \<^verbatim>\<open>isActive\<close> measures the
  target's current box and reports whether it differs from \<^verbatim>\<open>broadcastedBox\<close>, without
  changing anything; \<^verbatim>\<open>broadcastRect\<close> measures the current box, stores it and
  returns it. The current box of every target is the layout, a function of the target.
\<close>

record ('k, 'b) observation =
  target :: "'k js_value"
  broadcastedBox :: "'b option"

definition ResizeObservation :: "'k js_value \<Rightarrow> ('k, 'b) observation" where
  "ResizeObservation t = \<lparr>target = t, broadcastedBox = None\<rparr>"

definition isActive :: "('k js_value \<Rightarrow> 'b) \<Rightarrow> ('k, 'b) observation \<Rightarrow> bool" where
  "isActive lay obs = (broadcastedBox obs \<noteq> Some (lay (target obs)))"

definition broadcastRect :: "('k js_value \<Rightarrow> 'b) \<Rightarrow> ('k, 'b) observation \<Rightarrow> 'b \<times> ('k, 'b) observation" where
  "broadcastRect lay obs = (lay (target obs), obs\<lparr>broadcastedBox := Some (lay (target obs))\<rparr>)"

text \<open>
  \<^verbatim>\<open>new ResizeObserverEntry(target, rect)\<close>: the pair handed to the callback.
\<close>

datatype ('k, 'b) entry = ResizeObserverEntry (entry_target: "'k js_value") (contentRect: 'b)

section \<open>ResizeObserverSPI\<close>

text \<open>
  The instance has two mutable fields: \<^verbatim>\<open>activeObservations_\<close>, an array of
  ResizeObservation objects, and \<^verbatim>\<open>observations_\<close>, the Map from targets to
  ResizeObservation objects. The same object is reachable from both, and
  \<^verbatim>\<open>broadcastRect\<close> mutates it, so the objects live in a store (\<^verbatim>\<open>heap\<close>) and the two
  fields hold references (addresses); \<^verbatim>\<open>next_ref\<close> is the next free address.
  The fields are written here without the trailing underscore of the source.

  The state also holds what the instance reads and what it calls: \<^verbatim>\<open>layout\<close>, the
  current box of every target, and \<^verbatim>\<open>controller_calls\<close>, the calls made on
  \<^verbatim>\<open>controller_\<close>, in order. The controller is not among the sources; what it does when
  called (a refresh runs gatherActive and broadcastActive on the registered instances)
  is outside this model.
\<close>

datatype controller_call = AddObserver | RemoveObserver | Refresh

record ('k, 'b) spi =
  activeObservations :: "nat list"
  observations :: "('k js_value \<times> nat) list"
  heap :: "nat \<Rightarrow> ('k, 'b) observation"
  next_ref :: nat
  layout :: "'k js_value \<Rightarrow> 'b"
  controller_calls :: "controller_call list"

text \<open>
  The user callback is arbitrary code that runs with access to the instance and the
  document: it receives the entries and the current state, leaves a state, and either
  returns (\<^verbatim>\<open>None\<close>) or throws (\<^verbatim>\<open>Some e\<close>).
\<close>

type_synonym ('k, 'b) callback =
  "('k, 'b) entry list \<Rightarrow> ('k, 'b) spi \<Rightarrow> js_error option \<times> ('k, 'b) spi"

definition new_spi :: "(nat \<Rightarrow> ('k, 'b) observation) \<Rightarrow> ('k js_value \<Rightarrow> 'b) \<Rightarrow> ('k, 'b) spi" where
  "new_spi h lay =
     \<lparr>activeObservations = [], observations = [], heap = h, next_ref = 0,
      layout = lay, controller_calls = []\<rparr>"

text \<open>
  \<^verbatim>\<open>validateMethodCall(arguments, target)\<close>: \<^verbatim>\<open>len\<close> is \<^verbatim>\<open>arguments.length\<close>.
\<close>

definition validateMethodCall :: "host \<Rightarrow> nat \<Rightarrow> 'k js_value \<Rightarrow> js_error + bool" where
  \<open>validateMethodCall h len t =
     (case assertType (len \<noteq> 0) ''1 argument required, but only 0 present.'' of
        Inl e \<Rightarrow> Inl e
      | Inr u \<Rightarrow>
          if \<not> hasElementInterface h then Inr False
          else (case assertType (instanceof_Element t)
                       ''parameter 1 is not of type "Element".'' of
                  Inl e \<Rightarrow> Inl e
                | Inr u \<Rightarrow> Inr True))\<close>

text \<open>The first parameter of a call: \<^verbatim>\<open>undefined\<close> when no argument was passed.\<close>

definition first_parameter :: "'k js_value list \<Rightarrow> 'k js_value" where
  "first_parameter args = (case args of [] \<Rightarrow> Undefined | a # rest \<Rightarrow> a)"

definition clearActive :: "('k, 'b) spi \<Rightarrow> ('k, 'b) spi" where
  "clearActive s = s\<lparr>activeObservations := []\<rparr>"

definition hasActive :: "('k, 'b) spi \<Rightarrow> bool" where
  "hasActive s = (length (activeObservations s) > 0)"

definition observe :: "host \<Rightarrow> 'k js_value list \<Rightarrow> ('k, 'b) spi \<Rightarrow> js_error + ('k, 'b) spi" where
  "observe h args s =
     (case validateMethodCall h (length args) (first_parameter args) of
        Inl e \<Rightarrow> Inl e
      | Inr valid \<Rightarrow>
          if \<not> valid then Inr s
          else (case Map_has h (first_parameter args) (observations s) of
                  Inl e \<Rightarrow> Inl e
                | Inr present \<Rightarrow>
                    if present then Inr s
                    else (case Map_set h (first_parameter args) (next_ref s) (observations s) of
                            Inl e \<Rightarrow> Inl e
                          | Inr obs \<Rightarrow>
                              Inr (s\<lparr>heap := (heap s)(next_ref s := ResizeObservation (first_parameter args)),
                                     next_ref := next_ref s + 1,
                                     observations := obs,
                                     controller_calls := controller_calls s @ [AddObserver, Refresh]\<rparr>))))"

definition unobserve :: "host \<Rightarrow> 'k js_value list \<Rightarrow> ('k, 'b) spi \<Rightarrow> js_error + ('k, 'b) spi" where
  "unobserve h args s =
     (case validateMethodCall h (length args) (first_parameter args) of
        Inl e \<Rightarrow> Inl e
      | Inr valid \<Rightarrow>
          if \<not> valid then Inr s
          else (case Map_has h (first_parameter args) (observations s) of
                  Inl e \<Rightarrow> Inl e
                | Inr present \<Rightarrow>
                    if \<not> present then Inr s
                    else (case Map_delete h (first_parameter args) (observations s) of
                            Inl e \<Rightarrow> Inl e
                          | Inr r \<Rightarrow>
                              if Map_size h (snd r) = 0
                              then Inr (s\<lparr>observations := snd r,
                                          controller_calls := controller_calls s @ [RemoveObserver]\<rparr>)
                              else Inr (s\<lparr>observations := snd r\<rparr>))))"

definition disconnect :: "host \<Rightarrow> ('k, 'b) spi \<Rightarrow> ('k, 'b) spi" where
  "disconnect h s =
     (clearActive s)\<lparr>observations := Map_clear h (observations s),
                     controller_calls := controller_calls s @ [RemoveObserver]\<rparr>"

text \<open>
  \<^verbatim>\<open>gatherActive\<close>: after \<^verbatim>\<open>clearActive\<close>, the \<^verbatim>\<open>forEach\<close> callback pushes every
  observation that \<^verbatim>\<open>isActive\<close>.
\<close>

definition gather_step :: "nat \<Rightarrow> 'k js_value \<Rightarrow> ('k, 'b) spi \<Rightarrow> ('k, 'b) spi" where
  "gather_step r key st =
     (if isActive (layout st) (heap st r)
      then st\<lparr>activeObservations := activeObservations st @ [r]\<rparr>
      else st)"

definition gatherActive :: "host \<Rightarrow> ('k, 'b) spi \<Rightarrow> ('k, 'b) spi" where
  "gatherActive h s = Map_forEach h gather_step (observations s) (clearActive s)"

text \<open>
  The \<^verbatim>\<open>map\<close> over \<^verbatim>\<open>activeObservations_\<close> in \<^verbatim>\<open>broadcastActive\<close>: for each observation,
  in order, \<^verbatim>\<open>new ResizeObserverEntry(observation.target, observation.broadcastRect())\<close>.
\<close>

fun map_entries :: "nat list \<Rightarrow> ('k, 'b) spi \<Rightarrow> ('k, 'b) entry list \<times> ('k, 'b) spi" where
  "map_entries [] s = ([], s)"
| "map_entries (r # rs) s =
     (let t = target (heap s r);
          res = broadcastRect (layout s) (heap s r);
          s1 = s\<lparr>heap := (heap s)(r := snd res)\<rparr>;
          rest = map_entries rs s1
      in (ResizeObserverEntry t (fst res) # fst rest, snd rest))"

text \<open>
  \<^verbatim>\<open>broadcastActive\<close> returns three things: whether a fault left it (\<^verbatim>\<open>Some e\<close>), the
  calls it made to the user callback (each call is the sequence of entries passed), and
  the state it leaves. The call \<^verbatim>\<open>this.callback_.call(ctx, entries, ctx)\<close> is not inside
  any \<^verbatim>\<open>try\<close>: when the callback throws, the statement after it does not run.
\<close>

definition broadcastActive ::
  "('k, 'b) callback \<Rightarrow> ('k, 'b) spi \<Rightarrow> js_error option \<times> ('k, 'b) entry list list \<times> ('k, 'b) spi" where
  "broadcastActive cb s =
     (if \<not> hasActive s then (None, [], s)
      else (let built = map_entries (activeObservations s) s;
                res = cb (fst built) (snd built)
            in (case fst res of
                  Some e \<Rightarrow> (Some e, [fst built], snd res)
                | None \<Rightarrow> (None, [fst built], clearActive (snd res)))))"

text \<open>Statements in sequence: a throw in the first skips the second.\<close>

definition and_then :: "'e + 'a \<Rightarrow> ('a \<Rightarrow> 'e + 'b) \<Rightarrow> 'e + 'b" where
  "and_then r f = (case r of Inl e \<Rightarrow> Inl e | Inr x \<Rightarrow> f x)"

section \<open>The tag-backed Map shim\<close>

text \<open>
  The second shim keeps its entries in an object keyed by strings (\<^verbatim>\<open>entries_\<close>), a
  base tag (\<^verbatim>\<open>tag_\<close>), the size (\<^verbatim>\<open>size_\<close>) and an id counter (\<^verbatim>\<open>id_\<close>); the fields
  are named here \<^verbatim>\<open>t_entries\<close>, \<^verbatim>\<open>t_tag\<close>, \<^verbatim>\<open>t_size\<close> and \<^verbatim>\<open>t_id\<close>. It writes a
  property into every object used as a key, so the key objects are part of the state:
  for each object, whether it is extensible and its own properties (name to number).
  A key is an object (\<^verbatim>\<open>typeof key === 'object'\<close>) or a primitive; a primitive is
  represented by the string \<^verbatim>\<open>key.toString()\<close> gives. Inherited properties and
  \<^verbatim>\<open>null\<close> are outside the model.
\<close>

datatype 'o key = Obj 'o | Prim string

record 'o objects =
  isExtensible :: "'o \<Rightarrow> bool"
  own_props :: "'o \<Rightarrow> string \<Rightarrow> int option"

record ('o, 'v) tag_shim =
  t_entries :: "string \<Rightarrow> ('o key \<times> 'v) option"
  t_tag :: string
  t_size :: int
  t_id :: int

definition tagPrefix :: string where
  "tagPrefix = ''__ResizeObserverPolyfill_Map__''"

text \<open>
  \<^verbatim>\<open>generateTag()\<close> appends a random UUID to the prefix; the UUID drawn is an input.
\<close>

definition generateTag :: "string \<Rightarrow> string" where
  "generateTag uuid = tagPrefix @ uuid"

text \<open>\<^verbatim>\<open>x | 0\<close>: the number as a signed 32-bit integer.\<close>

definition ToInt32 :: "int \<Rightarrow> int" where
  "ToInt32 x = sint (word_of_int x :: 32 word)"

text \<open>\<^verbatim>\<open>toString()\<close> of an integral number: its decimal digits.\<close>

fun digits :: "nat \<Rightarrow> string" where
  "digits n =
     (if n < 10 then [''0123456789'' ! n]
      else digits (n div 10) @ [''0123456789'' ! (n mod 10)])"

declare digits.simps [simp del]

definition number_toString :: "int \<Rightarrow> string" where
  "number_toString x = (if x < 0 then CHR ''-'' # digits (nat (- x)) else digits (nat x))"

definition startsWith :: "string \<Rightarrow> string \<Rightarrow> bool" where
  "startsWith str pre = (take (length pre) str = pre)"

definition tshim_clear :: "string \<Rightarrow> ('o, 'v) tag_shim" where
  "tshim_clear uuid = \<lparr>t_entries = (\<lambda>t. None), t_tag = generateTag uuid, t_size = 0, t_id = 0\<rparr>"

text \<open>The constructor: \<^verbatim>\<open>this.clear()\<close>.\<close>

definition tshim_new :: "string \<Rightarrow> ('o, 'v) tag_shim" where
  "tshim_new uuid = tshim_clear uuid"

definition tshim_size :: "('o, 'v) tag_shim \<Rightarrow> int" where
  "tshim_size m = t_size m"

text \<open>
  \<^verbatim>\<open>insert_(key, value)\<close>. \<^verbatim>\<open>Object.defineProperty(key, this.tag_, {value: id, ...})\<close>
  sets the own property of the key object.
\<close>

definition tshim_insert ::
  "'o key \<Rightarrow> 'v \<Rightarrow> ('o, 'v) tag_shim \<Rightarrow> 'o objects \<Rightarrow> js_error + (('o, 'v) tag_shim \<times> 'o objects)" where
  "tshim_insert key val m w =
     (case key of
        Obj ob \<Rightarrow>
          (case assertType (isExtensible w ob) ''Cannot use inextensible object as keys with MapShim!'' of
             Inl e \<Rightarrow> Inl e
           | Inr u \<Rightarrow>
               Inr (m\<lparr>t_entries := (t_entries m)(t_tag m @ number_toString (ToInt32 (t_id m)) \<mapsto> (key, val)),
                      t_size := t_size m + 1,
                      t_id := t_id m + 1\<rparr>,
                    w\<lparr>own_props := (own_props w)(ob := (own_props w ob)(t_tag m \<mapsto> ToInt32 (t_id m)))\<rparr>))
      | Prim str \<Rightarrow>
          (case assertType (\<not> startsWith str tagPrefix)
                  ''Cannot use primitive that stringifies to a value prefixed by MapShim's tag prefix!'' of
             Inl e \<Rightarrow> Inl e
           | Inr u \<Rightarrow>
               Inr (m\<lparr>t_entries := (t_entries m)(str \<mapsto> (key, val)),
                      t_size := t_size m + 1,
                      t_id := t_id m + 1\<rparr>, w)))"

text \<open>\<^verbatim>\<open>getTag_(key)\<close>: \<^verbatim>\<open>None\<close> is \<^verbatim>\<open>undefined\<close>.\<close>

definition tshim_getTag :: "'o key \<Rightarrow> ('o, 'v) tag_shim \<Rightarrow> 'o objects \<Rightarrow> string option" where
  "tshim_getTag key m w =
     (case key of
        Obj ob \<Rightarrow>
          (if isExtensible w ob \<and> own_props w ob (t_tag m) \<noteq> None
           then Some (t_tag m @ number_toString (the (own_props w ob (t_tag m))))
           else None)
      | Prim str \<Rightarrow> Some str)"

text \<open>
  \<^verbatim>\<open>exists_(tag)\<close> is \<^verbatim>\<open>tag && tag in this.entries_\<close>, read for its truth value:
  \<^verbatim>\<open>undefined\<close> and the empty string are falsy.
\<close>

definition tshim_exists :: "string option \<Rightarrow> ('o, 'v) tag_shim \<Rightarrow> bool" where
  "tshim_exists tag m =
     (case tag of None \<Rightarrow> False | Some t \<Rightarrow> t \<noteq> [] \<and> t_entries m t \<noteq> None)"

definition tshim_get :: "'o key \<Rightarrow> ('o, 'v) tag_shim \<Rightarrow> 'o objects \<Rightarrow> 'v option" where
  "tshim_get key m w =
     (if tshim_exists (tshim_getTag key m w) m
      then map_option snd (t_entries m (the (tshim_getTag key m w)))
      else None)"

definition tshim_set ::
  "'o key \<Rightarrow> 'v \<Rightarrow> ('o, 'v) tag_shim \<Rightarrow> 'o objects \<Rightarrow> js_error + (('o, 'v) tag_shim \<times> 'o objects)" where
  "tshim_set key val m w =
     (if tshim_exists (tshim_getTag key m w) m
      then Inr (m\<lparr>t_entries := (t_entries m)
                     (the (tshim_getTag key m w) :=
                        map_option (\<lambda>e. (fst e, val)) (t_entries m (the (tshim_getTag key m w))))\<rparr>, w)
      else tshim_insert key val m w)"

text \<open>
  \<^verbatim>\<open>delete(key)\<close>: \<^verbatim>\<open>delete key[this.tag_]\<close> removes the own property of an object
  key and does nothing on a primitive.
\<close>

definition tshim_delete ::
  "'o key \<Rightarrow> ('o, 'v) tag_shim \<Rightarrow> 'o objects \<Rightarrow> bool \<times> ('o, 'v) tag_shim \<times> 'o objects" where
  "tshim_delete key m w =
     (if \<not> tshim_exists (tshim_getTag key m w) m then (False, m, w)
      else (True,
            m\<lparr>t_entries := (t_entries m)(the (tshim_getTag key m w) := None),
              t_size := t_size m - 1\<rparr>,
            (case key of
               Obj ob \<Rightarrow> w\<lparr>own_props := (own_props w)(ob := (own_props w ob)(t_tag m := None))\<rparr>
             | Prim str \<Rightarrow> w)))"

definition tshim_has :: "'o key \<Rightarrow> ('o, 'v) tag_shim \<Rightarrow> 'o objects \<Rightarrow> bool" where
  "tshim_has key m w = tshim_exists (tshim_getTag key m w) m"

section \<open>The two shims side by side\<close>

text \<open>
  A map operation and what a caller sees of it: the value returned, or the error thrown.
  \<^verbatim>\<open>set\<close> returns the map itself (\<^verbatim>\<open>This\<close>); \<^verbatim>\<open>Clear\<close> carries the UUID that the
  tag-backed shim draws.
\<close>

datatype ('o, 'v) map_op = Set "'o key" 'v | Get "'o key" | Delete "'o key" | Has "'o key" | Clear string | Size

datatype 'v seen = This | Value "'v option" | Bool bool | Number int | Void | Thrown js_error

fun run_shim :: "('o, 'v) map_op list \<Rightarrow> ('o key, 'v) shim \<Rightarrow> 'v seen list" where
  "run_shim [] es = []"
| "run_shim (Set k v # ops) es =
     (case shim_set k v es of Inl e \<Rightarrow> Thrown e # run_shim ops es | Inr es1 \<Rightarrow> This # run_shim ops es1)"
| "run_shim (Get k # ops) es =
     (case shim_get k es of Inl e \<Rightarrow> Thrown e # run_shim ops es | Inr r \<Rightarrow> Value r # run_shim ops es)"
| "run_shim (Delete k # ops) es =
     (case shim_delete k es of
        Inl e \<Rightarrow> Thrown e # run_shim ops es
      | Inr r \<Rightarrow> Bool (fst r) # run_shim ops (snd r))"
| "run_shim (Has k # ops) es =
     (case shim_has k es of Inl e \<Rightarrow> Thrown e # run_shim ops es | Inr r \<Rightarrow> Bool r # run_shim ops es)"
| "run_shim (Clear uuid # ops) es = Void # run_shim ops (shim_clear es)"
| "run_shim (Size # ops) es = Number (int (shim_size es)) # run_shim ops es"

fun run_tshim :: "('o, 'v) map_op list \<Rightarrow> ('o, 'v) tag_shim \<Rightarrow> 'o objects \<Rightarrow> 'v seen list" where
  "run_tshim [] m w = []"
| "run_tshim (Set k v # ops) m w =
     (case tshim_set k v m w of
        Inl e \<Rightarrow> Thrown e # run_tshim ops m w
      | Inr r \<Rightarrow> This # run_tshim ops (fst r) (snd r))"
| "run_tshim (Get k # ops) m w = Value (tshim_get k m w) # run_tshim ops m w"
| "run_tshim (Delete k # ops) m w =
     Bool (fst (tshim_delete k m w))
       # run_tshim ops (fst (snd (tshim_delete k m w))) (snd (snd (tshim_delete k m w)))"
| "run_tshim (Has k # ops) m w = Bool (tshim_has k m w) # run_tshim ops m w"
| "run_tshim (Clear uuid # ops) m w = Void # run_tshim ops (tshim_clear uuid) w"
| "run_tshim (Size # ops) m w = Number (tshim_size m) # run_tshim ops m w"

section \<open>Concrete hosts, states and callbacks\<close>

text \<open>A browser without a native Map, and one with it; both define Element.\<close>

definition old_browser :: host where
  "old_browser = \<lparr>hasElementInterface = True, hasNativeMap = False\<rparr>"

definition modern_browser :: host where
  "modern_browser = \<lparr>hasElementInterface = True, hasNativeMap = True\<rparr>"

text \<open>A host without the Element interface.\<close>

definition no_dom_host :: host where
  "no_dom_host = \<lparr>hasElementInterface = False, hasNativeMap = True\<rparr>"

text \<open>A fresh instance in a document where every box is 5.\<close>

definition fresh :: "(nat, nat) spi" where
  "fresh = new_spi (\<lambda>r. ResizeObservation Undefined) (\<lambda>t. 5)"

text \<open>
  The states that instance reaches: after \<^verbatim>\<open>observe(e10)\<close>; after a second
  \<^verbatim>\<open>observe(e10)\<close> in the browser without a native Map; after \<^verbatim>\<open>observe(e10)\<close>,
  \<^verbatim>\<open>observe(e20)\<close>, \<^verbatim>\<open>observe(e30)\<close>.
\<close>

definition observing_one :: "(nat, nat) spi" where
  "observing_one =
     \<lparr>activeObservations = [], observations = [(Element 10, 0)],
      heap = (\<lambda>r. ResizeObservation Undefined)(0 := ResizeObservation (Element 10)),
      next_ref = 1, layout = (\<lambda>t. 5), controller_calls = [AddObserver, Refresh]\<rparr>"

definition observing_one_twice :: "(nat, nat) spi" where
  "observing_one_twice =
     \<lparr>activeObservations = [], observations = [(Element 10, 0), (Element 10, 1)],
      heap = (\<lambda>r. ResizeObservation Undefined)
               (0 := ResizeObservation (Element 10), 1 := ResizeObservation (Element 10)),
      next_ref = 2, layout = (\<lambda>t. 5),
      controller_calls = [AddObserver, Refresh, AddObserver, Refresh]\<rparr>"

definition observing_three :: "(nat, nat) spi" where
  "observing_three =
     \<lparr>activeObservations = [],
      observations = [(Element 10, 0), (Element 20, 1), (Element 30, 2)],
      heap = (\<lambda>r. ResizeObservation Undefined)
               (0 := ResizeObservation (Element 10), 1 := ResizeObservation (Element 20),
                2 := ResizeObservation (Element 30)),
      next_ref = 3, layout = (\<lambda>t. 5),
      controller_calls = [AddObserver, Refresh, AddObserver, Refresh, AddObserver, Refresh]\<rparr>"

text \<open>
  Three callbacks: one that returns at once, one that throws at once, and one that
  unobserves element 10, resizes every box to 7 and returns.
\<close>

definition quiet_callback :: "(nat, nat) callback" where
  "quiet_callback entries s = (None, s)"

definition throwing_callback :: "(nat, nat) callback" where
  "throwing_callback entries s = (Some (Error ''boom''), s)"

definition meddling_callback :: "(nat, nat) callback" where
  "meddling_callback entries s =
     (case unobserve modern_browser [Element 10] s of
        Inl e \<Rightarrow> (Some e, s)
      | Inr s1 \<Rightarrow> (None, s1\<lparr>layout := (\<lambda>t. 7)\<rparr>))"

text \<open>Key objects that are all extensible, and key objects that are all frozen.\<close>

definition all_extensible :: "nat objects" where
  "all_extensible = \<lparr>isExtensible = (\<lambda>ob. True), own_props = (\<lambda>ob t. None)\<rparr>"

definition all_frozen :: "nat objects" where
  "all_frozen = \<lparr>isExtensible = (\<lambda>ob. False), own_props = (\<lambda>ob t. None)\<rparr>"

section \<open>Properties of the array-backed shim\<close>

lemma ToNumber_is_NaN: "ToNumber x = NaN"
  by (cases x) (simp_all add: ToNumber_def)

lemma indexOfKey_loop_NaN: "indexOfKey_loop key es NaN i = Inr (- 1)"
  by (subst indexOfKey_loop.simps) (simp add: js_less_def)

lemma indexOfKey_always_minus_one: "indexOfKey key es = Inr (- 1)"
  by (simp add: indexOfKey_def ToNumber_is_NaN indexOfKey_loop_NaN)

lemma shim_has_always_false: "shim_has key es = Inr False"
  by (simp add: shim_has_def indexOfKey_always_minus_one)

lemma shim_get_always_undefined: "shim_get key es = Inr None"
  by (simp add: shim_get_def indexOfKey_always_minus_one)

lemma shim_set_always_appends: "shim_set key val es = Inr (es @ [(key, val)])"
  by (simp add: shim_set_def indexOfKey_always_minus_one)

lemma shim_delete_always_false: "shim_delete key es = Inr (False, es)"
  by (simp add: shim_delete_def indexOfKey_always_minus_one)

text \<open>
  C2 (the code breaks the claim). The claim: after \<^verbatim>\<open>set(k, v)\<close>, \<^verbatim>\<open>has(k)\<close> is true
  and \<^verbatim>\<open>get(k)\<close> returns \<^verbatim>\<open>v\<close>; \<^verbatim>\<open>set\<close> on an existing key does not grow the size;
  \<^verbatim>\<open>delete(k)\<close> removes \<^verbatim>\<open>k\<close> and reports that it was present. On the shim, with the
  key 7 and the values 1 and 2: after \<^verbatim>\<open>set(7, 1)\<close> the map holds the entry, yet
  \<^verbatim>\<open>has(7)\<close> is false, \<^verbatim>\<open>get(7)\<close> is undefined, \<^verbatim>\<open>set(7, 2)\<close> grows the map to two
  entries, and \<^verbatim>\<open>delete(7)\<close> returns false and removes nothing.
\<close>

theorem C2_shim_loses_its_keys:
  "shim_set (7::nat) (1::nat) shim_new = Inr [(7, 1)]
   \<and> shim_has (7::nat) [(7, 1::nat)] = Inr False
   \<and> shim_get (7::nat) [(7, 1::nat)] = Inr None
   \<and> shim_set (7::nat) (2::nat) [(7, 1)] = Inr [(7, 1), (7, 2)]
   \<and> shim_size [(7::nat, 1::nat), (7, 2)] = 2
   \<and> shim_delete (7::nat) [(7, 1::nat)] = Inr (False, [(7, 1)])"
  by (simp add: shim_has_always_false shim_get_always_undefined shim_set_always_appends
      shim_delete_always_false shim_new_def shim_size_def)

section \<open>The two shims compared\<close>

lemma number_toString_0: "number_toString 0 = ''0''"
  by (simp add: number_toString_def digits.simps)

text \<open>
  C9 (the code breaks the claim). The claim: on extensible object keys the two shims
  give the same results for every sequence of set/get/delete/has/clear/size. On the
  extensible object 10, the sequence \<^verbatim>\<open>set(o, 1)\<close>, \<^verbatim>\<open>has(o)\<close>, \<^verbatim>\<open>get(o)\<close>,
  \<^verbatim>\<open>set(o, 2)\<close>, \<^verbatim>\<open>size\<close>, \<^verbatim>\<open>delete(o)\<close>, \<^verbatim>\<open>size\<close> gives on the array-backed shim
  false, undefined, size 2, false, size 2, and on the tag-backed shim true, 1, size 1,
  true, size 0.
\<close>

theorem C9_shims_disagree:
  "run_shim [Set (Obj (10::nat)) (1::nat), Has (Obj 10), Get (Obj 10), Set (Obj 10) 2, Size,
             Delete (Obj 10), Size]
            shim_new
     = [This, Bool False, Value None, This, Number 2, Bool False, Number 2]
   \<and> run_tshim [Set (Obj (10::nat)) (1::nat), Has (Obj 10), Get (Obj 10), Set (Obj 10) 2, Size,
                Delete (Obj 10), Size]
            (tshim_new ''0'') all_extensible
     = [This, Bool True, Value (Some 1), This, Number 1, Bool True, Number 0]"
  by (simp add: shim_has_always_false shim_get_always_undefined shim_set_always_appends
      shim_delete_always_false shim_new_def shim_size_def
      tshim_new_def tshim_clear_def tshim_set_def tshim_get_def tshim_has_def tshim_delete_def
      tshim_exists_def tshim_getTag_def tshim_insert_def tshim_size_def all_extensible_def
      assertType_def assert_js_def generateTag_def tagPrefix_def ToInt32_def number_toString_0)

section \<open>The tag-backed shim refuses keys it cannot tag\<close>

text \<open>
  C10. For every state of the tag-backed shim and of the key objects, every value and
  every object key that is not extensible: \<^verbatim>\<open>set(key, value)\<close> throws the TypeError
  of \<^verbatim>\<open>insert_\<close> (the throw comes before any write, so nothing is stored), and the
  key is not in the map: \<^verbatim>\<open>has(key)\<close> is false and \<^verbatim>\<open>get(key)\<close> is undefined. A map
  of observations kept in this shim therefore cannot take a frozen target.
\<close>

theorem C10_inextensible_key_is_refused:
  "\<not> isExtensible w ob \<Longrightarrow>
     tshim_set (Obj ob) v m w = Inl (TypeError ''Cannot use inextensible object as keys with MapShim!'')
     \<and> tshim_insert (Obj ob) v m w = Inl (TypeError ''Cannot use inextensible object as keys with MapShim!'')
     \<and> \<not> tshim_has (Obj ob) m w
     \<and> tshim_get (Obj ob) m w = None"
  by (simp add: tshim_set_def tshim_insert_def tshim_has_def tshim_get_def tshim_getTag_def
      tshim_exists_def assertType_def assert_js_def)

text \<open>
  C10 at a concrete input: the frozen object 10 offered to a new map.
\<close>

theorem C10_witness:
  "\<not> isExtensible all_frozen 10
   \<and> tshim_set (Obj 10) (1::nat) (tshim_new ''0'') all_frozen
       = Inl (TypeError ''Cannot use inextensible object as keys with MapShim!'')
   \<and> \<not> tshim_has (Obj 10) (tshim_new ''0'' :: (nat, nat) tag_shim) all_frozen
   \<and> tshim_size (tshim_new ''0'' :: (nat, nat) tag_shim) = 0"
proof -
  have frozen: "\<not> isExtensible all_frozen 10"
    by (simp add: all_frozen_def)
  show ?thesis
    using C10_inextensible_key_is_refused [OF frozen, of "1::nat" "tshim_new ''0''"] frozen
    by (simp add: tshim_size_def tshim_new_def tshim_clear_def)
qed

section \<open>Gathering and building the entries\<close>

lemma old_browser_facts: "hasElementInterface old_browser" "\<not> hasNativeMap old_browser"
  by (simp_all add: old_browser_def)

lemma modern_browser_facts: "hasElementInterface modern_browser" "hasNativeMap modern_browser"
  by (simp_all add: modern_browser_def)

lemma no_dom_host_facts: "\<not> hasElementInterface no_dom_host"
  by (simp add: no_dom_host_def)

lemma Map_forEach_foldl:
  "Map_forEach h f es st = foldl (\<lambda>acc e. f (snd e) (fst e) acc) st es"
  by (simp add: Map_forEach_def native_forEach_def shim_forEach_def)

lemma gather_fold:
  "foldl (\<lambda>acc e. gather_step (snd e) (fst e) acc) st es =
     st\<lparr>activeObservations := activeObservations st
          @ map snd (filter (\<lambda>e. isActive (layout st) (heap st (snd e))) es)\<rparr>"
  by (induction es arbitrary: st) (simp_all add: gather_step_def)

text \<open>
  On either Map, \<^verbatim>\<open>gatherActive\<close> replaces \<^verbatim>\<open>activeObservations_\<close> by the active
  observations, in the order of the entries, and changes nothing else.
\<close>

lemma gatherActive_eq:
  "gatherActive h s =
     s\<lparr>activeObservations :=
         map snd (filter (\<lambda>e. isActive (layout s) (heap s (snd e))) (observations s))\<rparr>"
  by (simp add: gatherActive_def Map_forEach_foldl gather_fold clearActive_def)

lemma gatherActive_clearActive: "gatherActive h (clearActive s) = gatherActive h s"
  by (simp add: gatherActive_eq clearActive_def)

text \<open>
  The entries built from a list of observations: one per observation, in order, each
  with the observation's target and that target's current box.
\<close>

lemma map_entries_fst:
  "fst (map_entries rs s) =
     map (\<lambda>r. ResizeObserverEntry (target (heap s r)) (layout s (target (heap s r)))) rs"
proof (induction rs arbitrary: s)
  case Nil
  show ?case by simp
next
  case (Cons r rs)
  show ?case
    by (simp add: Let_def Cons.IH broadcastRect_def)
qed

lemma map_entries_fields:
  "activeObservations (snd (map_entries rs s)) = activeObservations s
   \<and> observations (snd (map_entries rs s)) = observations s
   \<and> layout (snd (map_entries rs s)) = layout s
   \<and> next_ref (snd (map_entries rs s)) = next_ref s
   \<and> controller_calls (snd (map_entries rs s)) = controller_calls s"
  by (induction rs arbitrary: s) (simp_all add: Let_def)

text \<open>
  The state after the entries are built: each observation in the list has its
  \<^verbatim>\<open>broadcastedBox\<close> set to the current box of its target; nothing else changes.
\<close>

lemma map_entries_snd:
  "snd (map_entries rs s) =
     s\<lparr>heap := (\<lambda>r. if r \<in> set rs
                       then (heap s r)\<lparr>broadcastedBox := Some (layout s (target (heap s r)))\<rparr>
                       else heap s r)\<rparr>"
proof (induction rs arbitrary: s)
  case Nil
  show ?case by simp
next
  case (Cons r rs)
  show ?case
    by (simp add: Let_def Cons.IH broadcastRect_def fun_eq_iff)
qed

section \<open>Validation of observe and unobserve\<close>

lemma validate_zero_arguments:
  "validateMethodCall h 0 t = Inl (TypeError ''1 argument required, but only 0 present.'')"
  by (simp add: validateMethodCall_def assertType_def assert_js_def)

lemma validate_without_Element:
  "0 < n \<Longrightarrow> \<not> hasElementInterface h \<Longrightarrow> validateMethodCall h n t = Inr False"
  by (simp add: validateMethodCall_def assertType_def assert_js_def)

lemma validate_non_Element:
  \<open>0 < n \<Longrightarrow> hasElementInterface h \<Longrightarrow> \<not> instanceof_Element t \<Longrightarrow>
     validateMethodCall h n t = Inl (TypeError ''parameter 1 is not of type "Element".'')\<close>
  by (simp add: validateMethodCall_def assertType_def assert_js_def)

lemma validate_Element:
  "0 < n \<Longrightarrow> hasElementInterface h \<Longrightarrow> validateMethodCall h n (Element k) = Inr True"
  by (simp add: validateMethodCall_def assertType_def assert_js_def instanceof_Element_def)

text \<open>Both methods, on every host and in every state: the faults and the silent return.\<close>

lemma no_argument_faults:
  "observe h [] s = Inl (TypeError ''1 argument required, but only 0 present.'')"
  "unobserve h [] s = Inl (TypeError ''1 argument required, but only 0 present.'')"
  by (simp_all add: observe_def unobserve_def validate_zero_arguments)

lemma non_Element_faults:
  \<open>hasElementInterface h \<Longrightarrow> \<not> instanceof_Element t \<Longrightarrow>
     observe h (t # rest) s = Inl (TypeError ''parameter 1 is not of type "Element".'')\<close>
  \<open>hasElementInterface h \<Longrightarrow> \<not> instanceof_Element t \<Longrightarrow>
     unobserve h (t # rest) s = Inl (TypeError ''parameter 1 is not of type "Element".'')\<close>
  by (simp_all add: observe_def unobserve_def validate_non_Element first_parameter_def)

lemma without_Element_nothing_happens:
  "\<not> hasElementInterface h \<Longrightarrow> observe h (t # rest) s = Inr s"
  "\<not> hasElementInterface h \<Longrightarrow> unobserve h (t # rest) s = Inr s"
  by (simp_all add: observe_def unobserve_def validate_without_Element)

lemma Element_never_faults:
  "hasElementInterface h \<Longrightarrow> \<exists>s1. observe h (Element k # rest) s = Inr s1"
  "hasElementInterface h \<Longrightarrow> \<exists>s1. unobserve h (Element k # rest) s = Inr s1"
  by (simp_all add: observe_def unobserve_def validate_Element first_parameter_def
      Map_has_def Map_set_def Map_delete_def shim_has_always_false shim_set_always_appends
      shim_delete_always_false)

section \<open>observe and unobserve on each Map\<close>

lemma observe_new_Element_old:
  "hasElementInterface h \<Longrightarrow> \<not> hasNativeMap h \<Longrightarrow>
   observe h [Element k] s =
     Inr (s\<lparr>heap := (heap s)(next_ref s := ResizeObservation (Element k)),
            next_ref := next_ref s + 1,
            observations := observations s @ [(Element k, next_ref s)],
            controller_calls := controller_calls s @ [AddObserver, Refresh]\<rparr>)"
  by (simp add: observe_def validate_Element first_parameter_def Map_has_def Map_set_def
      shim_has_always_false shim_set_always_appends)

lemma observe_new_Element_native:
  "hasElementInterface h \<Longrightarrow> hasNativeMap h \<Longrightarrow> Element k \<notin> set (map fst (observations s)) \<Longrightarrow>
   observe h [Element k] s =
     Inr (s\<lparr>heap := (heap s)(next_ref s := ResizeObservation (Element k)),
            next_ref := next_ref s + 1,
            observations := observations s @ [(Element k, next_ref s)],
            controller_calls := controller_calls s @ [AddObserver, Refresh]\<rparr>)"
  by (simp add: observe_def validate_Element first_parameter_def Map_has_def Map_set_def
      native_has_def native_set_def)

text \<open>With the host's Map, a repeated \<^verbatim>\<open>observe\<close> changes nothing.\<close>

lemma observe_twice_native:
  "hasNativeMap h \<Longrightarrow> observe h args s = Inr s1 \<Longrightarrow> observe h args s1 = Inr s1"
  by (auto simp add: observe_def Map_has_def Map_set_def native_has_def native_set_def
      split: sum.splits if_splits)

text \<open>
  With the host's Map, \<^verbatim>\<open>unobserve\<close> of an observed element removes its entry and
  calls \<^verbatim>\<open>removeObserver\<close> exactly when no entry is left; on an element that is not
  observed it changes nothing.
\<close>

lemma unobserve_native:
  "hasNativeMap h \<Longrightarrow> hasElementInterface h \<Longrightarrow> Element k \<in> set (map fst (observations s)) \<Longrightarrow>
   unobserve h [Element k] s =
     Inr (if filter (\<lambda>e. fst e \<noteq> Element k) (observations s) = []
          then s\<lparr>observations := [], controller_calls := controller_calls s @ [RemoveObserver]\<rparr>
          else s\<lparr>observations := filter (\<lambda>e. fst e \<noteq> Element k) (observations s)\<rparr>)"
  by (simp add: unobserve_def validate_Element first_parameter_def Map_has_def Map_delete_def
      Map_size_def native_has_def native_delete_def)

lemma unobserve_absent_native:
  "hasNativeMap h \<Longrightarrow> hasElementInterface h \<Longrightarrow> Element k \<notin> set (map fst (observations s)) \<Longrightarrow>
   unobserve h [Element k] s = Inr s"
  by (simp add: unobserve_def validate_Element first_parameter_def Map_has_def native_has_def)

text \<open>The concrete states are the ones the calls produce, on either browser.\<close>

lemma observe_once_old: "observe old_browser [Element 10] fresh = Inr observing_one"
  by (simp add: observe_new_Element_old old_browser_facts fresh_def new_spi_def observing_one_def)

lemma observe_once_modern: "observe modern_browser [Element 10] fresh = Inr observing_one"
  by (simp add: observe_new_Element_native modern_browser_facts fresh_def new_spi_def
      observing_one_def)

lemma observe_three_old:
  "and_then (and_then (observe old_browser [Element 10] fresh) (observe old_browser [Element 20]))
            (observe old_browser [Element 30]) = Inr observing_three"
  by (simp add: observe_new_Element_old old_browser_facts and_then_def fresh_def new_spi_def
      observing_three_def numeral_2_eq_2)

lemma observe_three_modern:
  "and_then (and_then (observe modern_browser [Element 10] fresh) (observe modern_browser [Element 20]))
            (observe modern_browser [Element 30]) = Inr observing_three"
  by (simp add: observe_new_Element_native modern_browser_facts and_then_def fresh_def new_spi_def
      observing_three_def numeral_2_eq_2)

text \<open>
  On every host with the Element interface, three \<^verbatim>\<open>observe\<close> calls on a new instance
  with distinct elements A, B, C leave the observations of A, B, C in that order.
\<close>

lemma observe_three:
  assumes "hasElementInterface h" and "A \<noteq> B" and "A \<noteq> C" and "B \<noteq> C"
  shows "and_then (and_then (observe h [Element A] (new_spi hp lay)) (observe h [Element B]))
                  (observe h [Element C])
         = Inr \<lparr>activeObservations = [],
                observations = [(Element A, 0), (Element B, 1), (Element C, 2)],
                heap = hp(0 := ResizeObservation (Element A), 1 := ResizeObservation (Element B),
                          2 := ResizeObservation (Element C)),
                next_ref = 3, layout = lay,
                controller_calls = [AddObserver, Refresh, AddObserver, Refresh, AddObserver, Refresh]\<rparr>"
proof (cases "hasNativeMap h")
  case True
  with assms show ?thesis
    by (simp add: observe_new_Element_native and_then_def new_spi_def numeral_2_eq_2 numeral_3_eq_3)
next
  case False
  with assms show ?thesis
    by (simp add: observe_new_Element_old and_then_def new_spi_def numeral_2_eq_2 numeral_3_eq_3)
qed

section \<open>Claims about observe and unobserve\<close>

text \<open>
  C1 (the code breaks the claim). The claim: \<^verbatim>\<open>observe(t); observe(t)\<close> behaves as a
  single \<^verbatim>\<open>observe(t)\<close>: the observation set has the same size, the target is
  registered once, no duplicate entry for it is broadcast. In the browser without a
  native Map, on a new instance and element 10: the first call gives the state with one
  observation; the second call adds a second observation of the same element and calls
  the controller again; the sizes are 1 and 2; a gather and a broadcast after one call
  deliver one entry for the element, after two calls two entries for it.
\<close>

theorem C1_observe_twice_registers_twice:
  "observe old_browser [Element 10] fresh = Inr observing_one
   \<and> observe old_browser [Element 10] observing_one = Inr observing_one_twice
   \<and> Map_size old_browser (observations observing_one) = 1
   \<and> Map_size old_browser (observations observing_one_twice) = 2
   \<and> fst (snd (broadcastActive quiet_callback (gatherActive old_browser observing_one)))
       = [[ResizeObserverEntry (Element 10) 5]]
   \<and> fst (snd (broadcastActive quiet_callback (gatherActive old_browser observing_one_twice)))
       = [[ResizeObserverEntry (Element 10) 5, ResizeObserverEntry (Element 10) 5]]"
  by (simp add: observe_once_old observe_def validate_Element old_browser_facts first_parameter_def
      Map_has_def Map_set_def Map_size_def shim_size_def
      shim_has_always_false shim_set_always_appends observing_one_def observing_one_twice_def
      gatherActive_eq broadcastActive_def hasActive_def map_entries_fst isActive_def
      ResizeObservation_def quiet_callback_def Let_def broadcastRect_def fresh_def new_spi_def)

text \<open>
  C6 (the code breaks the claim). The claim: \<^verbatim>\<open>unobserve(target)\<close> removes the
  Observation of an observed target and deregisters the instance when none is left. In
  the browser without a native Map, after \<^verbatim>\<open>observe(e10)\<close> on a new instance,
  \<^verbatim>\<open>unobserve(e10)\<close> returns the state unchanged: the observation of element 10 is
  still there and \<^verbatim>\<open>removeObserver\<close> has not been called.
\<close>

theorem C6_unobserve_removes_nothing:
  "observe old_browser [Element 10] fresh = Inr observing_one
   \<and> unobserve old_browser [Element 10] observing_one = Inr observing_one
   \<and> observations observing_one = [(Element 10, 0)]
   \<and> controller_calls observing_one = [AddObserver, Refresh]"
  by (simp add: observe_once_old unobserve_def validate_Element old_browser_facts first_parameter_def
      Map_has_def shim_has_always_false observing_one_def)

text \<open>
  C8 (the code breaks the claim in one case). The claim: both methods throw a TypeError
  without an argument; with the Element interface they throw a TypeError for a target
  that is not an Element; without it they do nothing; on a duplicate or absent target
  they are no-ops. In the state after \<^verbatim>\<open>observe(e10)\<close>: the two faults and the silent
  return are as claimed, and \<^verbatim>\<open>unobserve\<close> of the absent element 90 changes nothing; but
  in the browser without a native Map \<^verbatim>\<open>observe\<close> of the duplicate element 10 is no
  no-op: it leaves a different set of observations.
\<close>

theorem C8_duplicate_observe_is_not_a_no_op:
  \<open>observe old_browser [] observing_one = Inl (TypeError ''1 argument required, but only 0 present.'')
   \<and> unobserve old_browser [] observing_one = Inl (TypeError ''1 argument required, but only 0 present.'')
   \<and> observe old_browser [NonElement 20] observing_one = Inl (TypeError ''parameter 1 is not of type "Element".'')
   \<and> unobserve old_browser [NonElement 20] observing_one = Inl (TypeError ''parameter 1 is not of type "Element".'')
   \<and> observe no_dom_host [NonElement 20] observing_one = Inr observing_one
   \<and> unobserve no_dom_host [NonElement 20] observing_one = Inr observing_one
   \<and> unobserve old_browser [Element 90] observing_one = Inr observing_one
   \<and> observe old_browser [Element 10] observing_one = Inr observing_one_twice
   \<and> observations observing_one_twice \<noteq> observations observing_one\<close>
  by (simp add: observe_def unobserve_def validate_zero_arguments validate_Element validate_non_Element
      validate_without_Element instanceof_Element_def
      old_browser_facts no_dom_host_facts first_parameter_def
      Map_has_def Map_set_def shim_has_always_false shim_set_always_appends
      observing_one_def observing_one_twice_def)

section \<open>Claims about disconnect, gatherActive and broadcastActive\<close>

text \<open>
  C7. On every host and in every state, \<^verbatim>\<open>disconnect()\<close> leaves
  \<^verbatim>\<open>activeObservations_\<close> empty and \<^verbatim>\<open>observations_\<close> empty and calls
  \<^verbatim>\<open>removeObserver\<close> on the controller; a second \<^verbatim>\<open>disconnect()\<close> leaves the instance
  as the first did: it changes nothing but to call \<^verbatim>\<open>removeObserver\<close> once more.
\<close>

theorem C7_disconnect_is_idempotent:
  "activeObservations (disconnect h s) = []
   \<and> observations (disconnect h s) = []
   \<and> controller_calls (disconnect h s) = controller_calls s @ [RemoveObserver]
   \<and> disconnect h (disconnect h s)
       = (disconnect h s)\<lparr>controller_calls := controller_calls (disconnect h s) @ [RemoveObserver]\<rparr>"
  by (simp add: disconnect_def clearActive_def Map_clear_def shim_clear_def)

text \<open>
  C3, as claimed, fails: after \<^verbatim>\<open>observe(e10)\<close> and a gather, a broadcast whose
  callback throws ends with that fault and leaves \<^verbatim>\<open>activeObservations_\<close> non-empty.
\<close>

theorem C3_counterexample:
  "fst (broadcastActive throwing_callback (gatherActive old_browser observing_one))
     = Some (Error ''boom'')
   \<and> activeObservations
        (snd (snd (broadcastActive throwing_callback (gatherActive old_browser observing_one))))
       \<noteq> []"
  by (simp add: gatherActive_eq broadcastActive_def hasActive_def isActive_def observing_one_def
      ResizeObservation_def throwing_callback_def Let_def broadcastRect_def)

text \<open>
  C3, amended. For every callback and state: when \<^verbatim>\<open>broadcastActive\<close> returns
  without a fault, \<^verbatim>\<open>activeObservations_\<close> is empty afterwards; when there are active
  observations and the callback throws, the fault leaves \<^verbatim>\<open>broadcastActive\<close> and the
  state is the one the callback left, \<^verbatim>\<open>activeObservations_\<close> not cleared.
\<close>

theorem C3_cleared_only_when_the_callback_returns:
  "(fst (broadcastActive cb s) = None
      \<longrightarrow> activeObservations (snd (snd (broadcastActive cb s))) = [])
   \<and> (hasActive s
        \<and> fst (cb (fst (map_entries (activeObservations s) s))
                   (snd (map_entries (activeObservations s) s))) = Some e
      \<longrightarrow> fst (broadcastActive cb s) = Some e
          \<and> snd (snd (broadcastActive cb s))
              = snd (cb (fst (map_entries (activeObservations s) s))
                        (snd (map_entries (activeObservations s) s))))"
  by (auto simp add: broadcastActive_def hasActive_def Let_def clearActive_def split: option.splits)

text \<open>
  C3, amended, at concrete inputs: the callback that returns, and the callback that
  throws, each after \<^verbatim>\<open>observe(e10)\<close> and a gather.
\<close>

theorem C3_witness:
  "fst (broadcastActive quiet_callback (gatherActive old_browser observing_one)) = None
   \<and> activeObservations
        (snd (snd (broadcastActive quiet_callback (gatherActive old_browser observing_one)))) = []
   \<and> hasActive (gatherActive old_browser observing_one)
   \<and> fst (broadcastActive throwing_callback (gatherActive old_browser observing_one))
       = Some (Error ''boom'')
   \<and> activeObservations
        (snd (snd (broadcastActive throwing_callback (gatherActive old_browser observing_one))))
       = [0]"
  using C3_cleared_only_when_the_callback_returns
      [where cb = quiet_callback and s = "gatherActive old_browser observing_one"]
    C3_cleared_only_when_the_callback_returns
      [where cb = throwing_callback and s = "gatherActive old_browser observing_one"
         and e = "Error ''boom''"]
  by (simp add: gatherActive_eq broadcastActive_def hasActive_def isActive_def observing_one_def
      ResizeObservation_def throwing_callback_def quiet_callback_def Let_def broadcastRect_def
      clearActive_def)

text \<open>
  C4, as claimed, fails: with elements 10, 20 and 30 observed in that order and all
  active, a gather and a broadcast call the callback once with the three entries in
  order, but the callback throws and \<^verbatim>\<open>activeObservations_\<close> is not cleared: it still
  holds the three observations.
\<close>

theorem C4_counterexample:
  "observations observing_three = [(Element 10, 0), (Element 20, 1), (Element 30, 2)]
   \<and> isActive (layout observing_three) (heap observing_three 0)
   \<and> isActive (layout observing_three) (heap observing_three 1)
   \<and> isActive (layout observing_three) (heap observing_three 2)
   \<and> fst (snd (broadcastActive throwing_callback (gatherActive old_browser observing_three)))
       = [[ResizeObserverEntry (Element 10) 5, ResizeObserverEntry (Element 20) 5,
           ResizeObserverEntry (Element 30) 5]]
   \<and> fst (broadcastActive throwing_callback (gatherActive old_browser observing_three))
       = Some (Error ''boom'')
   \<and> activeObservations
        (snd (snd (broadcastActive throwing_callback (gatherActive old_browser observing_three))))
       = [0, 1, 2]"
  by (simp add: gatherActive_eq broadcastActive_def hasActive_def isActive_def observing_three_def
      ResizeObservation_def throwing_callback_def Let_def broadcastRect_def)

text \<open>
  C4, amended. For every host, callback and state whose observations are, in insertion
  order, those of the targets A, B and C, all three active: \<^verbatim>\<open>gatherActive\<close> followed
  by \<^verbatim>\<open>broadcastActive\<close> applies the callback exactly once, to the entries of A, B and
  C in that order (each with its current box) and to the state in which the three
  observations are the active ones and have recorded those boxes. The outcome is the
  callback's outcome. When the callback returns, the state left is the one the callback
  left with \<^verbatim>\<open>activeObservations_\<close> cleared; when it throws, the state left is the one
  the callback left, not cleared.
\<close>

theorem C4_one_call_in_insertion_order:
  assumes "observations s = [(A, a), (B, b), (C, c)]"
    and "target (heap s a) = A" and "target (heap s b) = B" and "target (heap s c) = C"
    and "isActive (layout s) (heap s a)" and "isActive (layout s) (heap s b)"
    and "isActive (layout s) (heap s c)"
  shows "(let entries = [ResizeObserverEntry A (layout s A), ResizeObserverEntry B (layout s B),
                         ResizeObserverEntry C (layout s C)];
              built = s\<lparr>activeObservations := [a, b, c],
                        heap := (\<lambda>r. if r \<in> {a, b, c}
                                     then (heap s r)\<lparr>broadcastedBox :=
                                                        Some (layout s (target (heap s r)))\<rparr>
                                     else heap s r)\<rparr>
          in broadcastActive cb (gatherActive h s)
               = (fst (cb entries built), [entries],
                  if fst (cb entries built) = None then clearActive (snd (cb entries built))
                  else snd (cb entries built)))"
proof -
  have gathered: "gatherActive h s = s\<lparr>activeObservations := [a, b, c]\<rparr>"
    using assms by (simp add: gatherActive_eq)
  have entries: "fst (map_entries [a, b, c] (s\<lparr>activeObservations := [a, b, c]\<rparr>))
      = [ResizeObserverEntry A (layout s A), ResizeObserverEntry B (layout s B),
         ResizeObserverEntry C (layout s C)]"
    using assms(2-4) by (simp only: map_entries_fst) simp
  have built: "snd (map_entries [a, b, c] (s\<lparr>activeObservations := [a, b, c]\<rparr>))
      = s\<lparr>activeObservations := [a, b, c],
           heap := (\<lambda>r. if r \<in> {a, b, c}
                        then (heap s r)\<lparr>broadcastedBox := Some (layout s (target (heap s r)))\<rparr>
                        else heap s r)\<rparr>"
    by (simp only: map_entries_snd) (simp add: fun_eq_iff)
  show ?thesis
    unfolding gathered Let_def
    by (simp add: broadcastActive_def hasActive_def Let_def entries built
        split: option.split del: map_entries.simps)
qed

text \<open>
  C4, amended, at concrete inputs: the state after \<^verbatim>\<open>observe(e10)\<close>, \<^verbatim>\<open>observe(e20)\<close>,
  \<^verbatim>\<open>observe(e30)\<close> on a new instance, with the callback that returns (the active
  observations are cleared and the broadcast box is recorded) and with the callback
  that throws (they are not cleared).
\<close>

theorem C4_witness:
  "observations observing_three = [(Element 10, 0), (Element 20, 1), (Element 30, 2)]
   \<and> target (heap observing_three 0) = Element 10
   \<and> target (heap observing_three 1) = Element 20
   \<and> target (heap observing_three 2) = Element 30
   \<and> isActive (layout observing_three) (heap observing_three 0)
   \<and> isActive (layout observing_three) (heap observing_three 1)
   \<and> isActive (layout observing_three) (heap observing_three 2)
   \<and> fst (broadcastActive quiet_callback (gatherActive old_browser observing_three)) = None
   \<and> fst (snd (broadcastActive quiet_callback (gatherActive old_browser observing_three)))
       = [[ResizeObserverEntry (Element 10) 5, ResizeObserverEntry (Element 20) 5,
           ResizeObserverEntry (Element 30) 5]]
   \<and> activeObservations
        (snd (snd (broadcastActive quiet_callback (gatherActive old_browser observing_three)))) = []
   \<and> broadcastedBox
        (heap (snd (snd (broadcastActive quiet_callback (gatherActive old_browser observing_three)))) 1)
       = Some 5
   \<and> fst (broadcastActive throwing_callback (gatherActive modern_browser observing_three))
       = Some (Error ''boom'')
   \<and> activeObservations
        (snd (snd (broadcastActive throwing_callback (gatherActive modern_browser observing_three))))
       = [0, 1, 2]"
proof -
  have hyps: "observations observing_three = [(Element 10, 0), (Element 20, 1), (Element 30, 2)]"
    "target (heap observing_three 0) = Element 10"
    "target (heap observing_three 1) = Element 20"
    "target (heap observing_three 2) = Element 30"
    "isActive (layout observing_three) (heap observing_three 0)"
    "isActive (layout observing_three) (heap observing_three 1)"
    "isActive (layout observing_three) (heap observing_three 2)"
    by (simp_all add: observing_three_def ResizeObservation_def isActive_def)
  have layout5: "layout observing_three = (\<lambda>t. 5)"
    by (simp add: observing_three_def)
  show ?thesis
    using C4_one_call_in_insertion_order [OF hyps, of quiet_callback old_browser]
      C4_one_call_in_insertion_order [OF hyps, of throwing_callback modern_browser] hyps
    by (simp add: Let_def layout5 quiet_callback_def throwing_callback_def clearActive_def)
qed

text \<open>
  C5. For every callback and every state with active observations: the one sequence
  of entries passed to the callback is determined by the state before the call (one
  entry per active observation, with its target and that target's box at that time),
  whatever the callback does; and what the callback did to the instance and the
  document is what the next gather sees, on any host: the gather after the broadcast is
  the gather of the state the callback left.
\<close>

theorem C5_entries_are_built_before_the_callback_runs:
  assumes "hasActive s"
  shows "fst (snd (broadcastActive cb s))
           = [map (\<lambda>r. ResizeObserverEntry (target (heap s r)) (layout s (target (heap s r))))
                  (activeObservations s)]
         \<and> gatherActive h (snd (snd (broadcastActive cb s)))
             = gatherActive h (snd (cb (fst (map_entries (activeObservations s) s))
                                       (snd (map_entries (activeObservations s) s))))"
  using assms
  by (simp add: broadcastActive_def Let_def map_entries_fst gatherActive_clearActive
      split: option.split)

text \<open>
  C5 at a concrete input: three active observations and the callback that unobserves
  element 10 and resizes every box. The entries passed are still those of elements 10,
  20 and 30 with the old box 5; the next gather sees elements 20 and 30 only, both
  active again.
\<close>

theorem C5_witness:
  "hasActive (gatherActive modern_browser observing_three)
   \<and> fst (snd (broadcastActive meddling_callback (gatherActive modern_browser observing_three)))
       = [[ResizeObserverEntry (Element 10) 5, ResizeObserverEntry (Element 20) 5,
           ResizeObserverEntry (Element 30) 5]]
   \<and> observations (gatherActive modern_browser
         (snd (snd (broadcastActive meddling_callback (gatherActive modern_browser observing_three)))))
       = [(Element 20, 1), (Element 30, 2)]
   \<and> activeObservations (gatherActive modern_browser
         (snd (snd (broadcastActive meddling_callback (gatherActive modern_browser observing_three)))))
       = [1, 2]"
proof -
  have active: "hasActive (gatherActive modern_browser observing_three)"
    by (simp add: gatherActive_eq hasActive_def observing_three_def isActive_def ResizeObservation_def)
  show ?thesis
    using C5_entries_are_built_before_the_callback_runs
      [OF active, where cb = meddling_callback and h = modern_browser] active
    by (simp add: gatherActive_eq observing_three_def isActive_def ResizeObservation_def
        meddling_callback_def unobserve_def validate_Element modern_browser_facts
        first_parameter_def Map_has_def Map_delete_def Map_size_def native_has_def
        native_delete_def Let_def broadcastRect_def)
qed

end
